theory Spec2Isabelle
  imports Main "HOL-Library.AList"
begin

section \<open>The graph container of Graph.h\<close>

text \<open>
  The header defines one class template, \<open>Graph<key_type, value_type, weight_type>\<close>, and
  its nested class \<open>Node\<close>. Both keep their data in a \<open>std::unordered_map\<close>. The three
  template parameters are the type variables \<open>'k\<close>, \<open>'v\<close> and \<open>'w\<close>.
\<close>

subsection \<open>Errors\<close>

text \<open>
  \<open>GraphException\<close> carries a message; every \<open>throw\<close> of the header passes the same
  message, \<open>"Key not found"\<close>. A member function that can throw returns a sum, the
  exception on the left.
\<close>

datatype error = GraphException string

abbreviation KeyNotFound :: error where
  "KeyNotFound \<equiv> GraphException ''Key not found''"

subsection \<open>The standard container\<close>

text \<open>
  \<open>std::unordered_map<K, T>\<close> is a finite table with unique keys whose iteration order
  is unspecified. It is modelled by the list of its entries in iteration order. An
  iterator is modelled by the entry it points to, \<open>end()\<close> by \<open>None\<close>.

  \<^item> \<open>find(k)\<close> gives the entry with key \<open>k\<close>, or \<open>end()\<close>;
  \<^item> \<open>insert({k, v})\<close> adds the entry only when no entry has key \<open>k\<close>, and returns the
    entry now stored under \<open>k\<close> with the flag "inserted";
  \<^item> \<open>insert_or_assign(k, v)\<close> adds the entry or overwrites the mapped value of the
    existing one, and returns the entry with the flag "inserted";
  \<^item> writing through an iterator replaces the mapped value in place
    (\<open>AList.update\<close> on a key that is present).
\<close>

definition umap_find :: "('k \<times> 'a) list \<Rightarrow> 'k \<Rightarrow> ('k \<times> 'a) option" where
  "umap_find m k = (case map_of m k of None \<Rightarrow> None | Some v \<Rightarrow> Some (k, v))"

definition umap_insert ::
  "('k \<times> 'a) list \<Rightarrow> 'k \<times> 'a \<Rightarrow> (('k \<times> 'a) \<times> bool) \<times> ('k \<times> 'a) list" where
  "umap_insert m e =
     (case umap_find m (fst e) of
        Some old \<Rightarrow> ((old, False), m)
      | None \<Rightarrow> ((e, True), m @ [e]))"

definition umap_insert_or_assign ::
  "('k \<times> 'a) list \<Rightarrow> 'k \<Rightarrow> 'a \<Rightarrow> (('k \<times> 'a) \<times> bool) \<times> ('k \<times> 'a) list" where
  "umap_insert_or_assign m k v =
     (((k, v), umap_find m k = None), AList.update k v m)"

definition umap_size :: "('k \<times> 'a) list \<Rightarrow> nat" where
  "umap_size m = length m"

definition umap_empty :: "('k \<times> 'a) list \<Rightarrow> bool" where
  "umap_empty m = (m = [])"

text \<open>The keys of an \<open>unordered_map\<close> are unique.\<close>

definition umap_wf :: "('k \<times> 'a) list \<Rightarrow> bool" where
  "umap_wf m = distinct (map fst m)"

subsection \<open>Node\<close>

record ('k, 'v, 'w) Node =
  m_value :: 'v
  m_edge :: "('k \<times> 'w) list"

text \<open>\<open>explicit Node(value_type value) : m_value(value) {}\<close>: the edge map starts empty.\<close>

definition Node_ctor :: "'v \<Rightarrow> ('k, 'v, 'w) Node" where
  "Node_ctor val = \<lparr>m_value = val, m_edge = []\<rparr>"

definition getedges :: "('k, 'v, 'w) Node \<Rightarrow> ('k \<times> 'w) list" where
  "getedges n = m_edge n"

definition getvalue :: "('k, 'v, 'w) Node \<Rightarrow> 'v" where
  "getvalue n = m_value n"

definition Node_size :: "('k, 'v, 'w) Node \<Rightarrow> nat" where
  "Node_size n = umap_size (m_edge n)"

definition Node_empty :: "('k, 'v, 'w) Node \<Rightarrow> bool" where
  "Node_empty n = umap_empty (m_edge n)"

definition Node_clear :: "('k, 'v, 'w) Node \<Rightarrow> ('k, 'v, 'w) Node" where
  "Node_clear n = n\<lparr>m_edge := []\<rparr>"

text \<open>\<open>Node::insert_edge\<close>: \<open>return m_edge.insert({key, weight});\<close>\<close>

definition Node_insert_edge ::
  "('k, 'v, 'w) Node \<Rightarrow> 'k \<Rightarrow> 'w \<Rightarrow> (('k \<times> 'w) \<times> bool) \<times> ('k, 'v, 'w) Node" where
  "Node_insert_edge n key weight =
     (case umap_insert (m_edge n) (key, weight) of
        (r, edges') \<Rightarrow> (r, n\<lparr>m_edge := edges'\<rparr>))"

text \<open>\<open>Node::insert_or_assign_edge\<close>: \<open>return m_edge.insert_or_assign(key, weight);\<close>\<close>

definition Node_insert_or_assign_edge ::
  "('k, 'v, 'w) Node \<Rightarrow> 'k \<Rightarrow> 'w \<Rightarrow> (('k \<times> 'w) \<times> bool) \<times> ('k, 'v, 'w) Node" where
  "Node_insert_or_assign_edge n key weight =
     (case umap_insert_or_assign (m_edge n) key weight of
        (r, edges') \<Rightarrow> (r, n\<lparr>m_edge := edges'\<rparr>))"

subsection \<open>Graph\<close>

record ('k, 'v, 'w) Graph =
  m_umap :: "('k \<times> ('k, 'v, 'w) Node) list"

text \<open>\<open>Graph() = default\<close>: the node map starts empty.\<close>

definition Graph_default :: "('k, 'v, 'w) Graph" where
  "Graph_default = \<lparr>m_umap = []\<rparr>"

definition Graph_empty :: "('k, 'v, 'w) Graph \<Rightarrow> bool" where
  "Graph_empty g = umap_empty (m_umap g)"

definition Graph_size :: "('k, 'v, 'w) Graph \<Rightarrow> nat" where
  "Graph_size g = umap_size (m_umap g)"

definition Graph_clear :: "('k, 'v, 'w) Graph \<Rightarrow> ('k, 'v, 'w) Graph" where
  "Graph_clear g = g\<lparr>m_umap := []\<rparr>"

definition Graph_find ::
  "('k, 'v, 'w) Graph \<Rightarrow> 'k \<Rightarrow> ('k \<times> ('k, 'v, 'w) Node) option" where
  "Graph_find g key = umap_find (m_umap g) key"

text \<open>
  \<open>at\<close>, both overloads: \<open>auto find = m_umap.find(key); if (find == m_umap.end()) throw
  GraphException("Key not found"); return find->second;\<close>
\<close>

definition Graph_at :: "('k, 'v, 'w) Graph \<Rightarrow> 'k \<Rightarrow> error + ('k, 'v, 'w) Node" where
  "Graph_at g key =
     (case umap_find (m_umap g) key of
        None \<Rightarrow> Inl KeyNotFound
      | Some found \<Rightarrow> Inr (snd found))"

text \<open>
  The loop of \<open>degree_in\<close> over the entries of the node map, with its counter. The
  counter is a \<open>size_t\<close>; it is incremented at most once per entry, so it never exceeds
  \<open>m_umap.size()\<close>, itself a \<open>size_t\<close>, and cannot wrap.
\<close>

fun degree_in_loop :: "'k \<Rightarrow> ('k \<times> ('k, 'v, 'w) Node) list \<Rightarrow> nat \<Rightarrow> nat" where
  "degree_in_loop key [] counter = counter"
| "degree_in_loop key (elem # rest) counter =
     degree_in_loop key rest
       (if umap_find (getedges (snd elem)) key \<noteq> None then counter + 1 else counter)"

definition degree_in :: "('k, 'v, 'w) Graph \<Rightarrow> 'k \<Rightarrow> error + nat" where
  "degree_in g key =
     (if umap_find (m_umap g) key = None then Inl KeyNotFound
      else Inr (degree_in_loop key (m_umap g) 0))"

definition degree_out :: "('k, 'v, 'w) Graph \<Rightarrow> 'k \<Rightarrow> error + nat" where
  "degree_out g key =
     (case umap_find (m_umap g) key of
        None \<Rightarrow> Inl KeyNotFound
      | Some found \<Rightarrow> Inr (umap_size (getedges (snd found))))"

definition loop :: "('k, 'v, 'w) Graph \<Rightarrow> 'k \<Rightarrow> error + bool" where
  "loop g key =
     (case umap_find (m_umap g) key of
        None \<Rightarrow> Inl KeyNotFound
      | Some found \<Rightarrow>
          (let node_map = getedges (snd found)
           in if umap_find node_map key \<noteq> None then Inr True else Inr False))"

text \<open>\<open>insert_node\<close>: \<open>return m_umap.insert({key, Node{value}});\<close>\<close>

definition insert_node ::
  "('k, 'v, 'w) Graph \<Rightarrow> 'k \<Rightarrow> 'v \<Rightarrow>
     (('k \<times> ('k, 'v, 'w) Node) \<times> bool) \<times> ('k, 'v, 'w) Graph" where
  "insert_node g key val =
     (case umap_insert (m_umap g) (key, Node_ctor val) of
        (r, m') \<Rightarrow> (r, g\<lparr>m_umap := m'\<rparr>))"

text \<open>\<open>insert_or_assign_node\<close>: \<open>return m_umap.insert_or_assign(key, Node{value});\<close>\<close>

definition insert_or_assign_node ::
  "('k, 'v, 'w) Graph \<Rightarrow> 'k \<Rightarrow> 'v \<Rightarrow>
     (('k \<times> ('k, 'v, 'w) Node) \<times> bool) \<times> ('k, 'v, 'w) Graph" where
  "insert_or_assign_node g key val =
     (case umap_insert_or_assign (m_umap g) key (Node_ctor val) of
        (r, m') \<Rightarrow> (r, g\<lparr>m_umap := m'\<rparr>))"

text \<open>
  \<open>Graph::insert_edge\<close>: both endpoints are looked up, then each lookup is compared with
  \<open>end()\<close>, the source first; the edge is inserted in the node the first iterator points
  to, which changes that node inside the map.
\<close>

definition Graph_insert_edge ::
  "('k, 'v, 'w) Graph \<Rightarrow> 'k \<times> 'k \<Rightarrow> 'w \<Rightarrow>
     error + ((('k \<times> 'w) \<times> bool) \<times> ('k, 'v, 'w) Graph)" where
  "Graph_insert_edge g end_points weight =
     (let first = umap_find (m_umap g) (fst end_points);
          second = umap_find (m_umap g) (snd end_points)
      in case first of
           None \<Rightarrow> Inl KeyNotFound
         | Some found \<Rightarrow>
             (case second of
                None \<Rightarrow> Inl KeyNotFound
              | Some _ \<Rightarrow>
                  (case Node_insert_edge (snd found) (snd end_points) weight of
                     (r, node') \<Rightarrow>
                       Inr (r, g\<lparr>m_umap := AList.update (fst found) node' (m_umap g)\<rparr>))))"

text \<open>\<open>Graph::insert_or_assign_edge\<close>: only the first endpoint is looked up.\<close>

definition Graph_insert_or_assign_edge ::
  "('k, 'v, 'w) Graph \<Rightarrow> 'k \<times> 'k \<Rightarrow> 'w \<Rightarrow>
     error + ((('k \<times> 'w) \<times> bool) \<times> ('k, 'v, 'w) Graph)" where
  "Graph_insert_or_assign_edge g end_points weight =
     (case umap_find (m_umap g) (fst end_points) of
        None \<Rightarrow> Inl KeyNotFound
      | Some found \<Rightarrow>
          (case Node_insert_or_assign_edge (snd found) (snd end_points) weight of
             (r, node') \<Rightarrow>
               Inr (r, g\<lparr>m_umap := AList.update (fst found) node' (m_umap g)\<rparr>)))"

subsection \<open>Objects: copy, move and swap\<close>

text \<open>
  Copying, moving and swapping are about which object holds which node map, so the
  graphs live in a store, from addresses to graphs. A reference parameter is an address;
  a by-value parameter is a new object, at an address of its own, copy-constructed from
  the argument. A constructor is given the address \<open>this\<close> of the object it builds.
\<close>

type_synonym addr = nat

type_synonym ('k, 'v, 'w) store = "addr \<Rightarrow> ('k, 'v, 'w) Graph"

text \<open>\<open>void swap(Graph& graph) noexcept { m_umap.swap(graph.m_umap); }\<close>\<close>

definition Graph_swap :: "('k, 'v, 'w) store \<Rightarrow> addr \<Rightarrow> addr \<Rightarrow> ('k, 'v, 'w) store" where
  "Graph_swap st this graph =
     (let mine = m_umap (st this); theirs = m_umap (st graph)
      in (st(this := (st this)\<lparr>m_umap := theirs\<rparr>))
            (graph := (st graph)\<lparr>m_umap := mine\<rparr>))"

text \<open>\<open>Graph(const Graph& graph)\<close>: the member starts empty, then \<open>m_umap = graph.m_umap;\<close>\<close>

definition copy_ctor :: "('k, 'v, 'w) store \<Rightarrow> addr \<Rightarrow> addr \<Rightarrow> ('k, 'v, 'w) store" where
  "copy_ctor st this graph =
     (let st0 = st(this := Graph_default)
      in st0(this := (st0 this)\<lparr>m_umap := m_umap (st0 graph)\<rparr>))"

text \<open>\<open>Graph(Graph&& graph)\<close>: the member starts empty, then \<open>swap(graph);\<close>\<close>

definition move_ctor :: "('k, 'v, 'w) store \<Rightarrow> addr \<Rightarrow> addr \<Rightarrow> ('k, 'v, 'w) store" where
  "move_ctor st this graph = Graph_swap (st(this := Graph_default)) this graph"

text \<open>\<open>operator=(const Graph& graph)\<close>: \<open>m_umap = graph.m_umap; return *this;\<close>\<close>

definition copy_assign :: "('k, 'v, 'w) store \<Rightarrow> addr \<Rightarrow> addr \<Rightarrow> ('k, 'v, 'w) store" where
  "copy_assign st this graph = st(this := (st this)\<lparr>m_umap := m_umap (st graph)\<rparr>)"

text \<open>\<open>operator=(Graph&& graph)\<close>: \<open>swap(graph); return *this;\<close>\<close>

definition move_assign :: "('k, 'v, 'w) store \<Rightarrow> addr \<Rightarrow> addr \<Rightarrow> ('k, 'v, 'w) store" where
  "move_assign st this graph = Graph_swap st this graph"

text \<open>
  The free function \<open>graph::swap(Graph graph1, Graph graph2)\<close> takes its parameters by
  value: called on the objects at \<open>a\<close> and \<open>b\<close>, it copy-constructs the parameter objects
  at \<open>graph1\<close> and \<open>graph2\<close>, and its body is \<open>graph1.swap(graph2);\<close>.
\<close>

definition free_swap ::
  "('k, 'v, 'w) store \<Rightarrow> addr \<Rightarrow> addr \<Rightarrow> addr \<Rightarrow> addr \<Rightarrow> ('k, 'v, 'w) store" where
  "free_swap st graph1 graph2 a b =
     Graph_swap (copy_ctor (copy_ctor st graph1 a) graph2 b) graph1 graph2"

text \<open>A call of a member function on the object at \<open>this\<close>, which may change it.\<close>

definition call ::
  "('k, 'v, 'w) store \<Rightarrow> addr \<Rightarrow> (('k, 'v, 'w) Graph \<Rightarrow> 'r \<times> ('k, 'v, 'w) Graph) \<Rightarrow>
     'r \<times> ('k, 'v, 'w) store" where
  "call st this memfn = (case memfn (st this) of (r, g') \<Rightarrow> (r, st(this := g')))"

subsection \<open>The representation invariant\<close>

text \<open>Keys are unique in the node map and in the edge map of every node.\<close>

definition Graph_wf :: "('k, 'v, 'w) Graph \<Rightarrow> bool" where
  "Graph_wf g =
     (umap_wf (m_umap g) \<and> list_all (\<lambda>elem. umap_wf (m_edge (snd elem))) (m_umap g))"

subsection \<open>Example graphs\<close>

text \<open>String keys, natural-number values and integer weights.\<close>

definition ex_A :: "(string, nat, int) Graph" where
  "ex_A = \<lparr>m_umap = [(''A'', \<lparr>m_value = 1, m_edge = []\<rparr>)]\<rparr>"

definition ex_A_loop :: "(string, nat, int) Graph" where
  "ex_A_loop = \<lparr>m_umap = [(''A'', \<lparr>m_value = 1, m_edge = [(''A'', 7)]\<rparr>)]\<rparr>"

definition ex_AB :: "(string, nat, int) Graph" where
  "ex_AB = \<lparr>m_umap = [(''A'', \<lparr>m_value = 1, m_edge = [(''B'', 5)]\<rparr>),
                      (''B'', \<lparr>m_value = 2, m_edge = []\<rparr>)]\<rparr>"

text \<open>
  The degree scenario: nodes \<open>A\<close>, \<open>B\<close> and \<open>C\<close> are inserted into an empty graph, then
  the edges \<open>A\<close> to \<open>B\<close> with weight 5, \<open>A\<close> to \<open>C\<close> with weight 2 and \<open>B\<close> to \<open>C\<close> with
  weight 1. An exception of \<open>insert_edge\<close> ends the sequence.
\<close>

definition degree_scenario :: "'v \<Rightarrow> 'v \<Rightarrow> 'v \<Rightarrow> error + (string, 'v, int) Graph" where
  "degree_scenario va vb vc =
     (let g1 = snd (insert_node Graph_default ''A'' va);
          g2 = snd (insert_node g1 ''B'' vb);
          g3 = snd (insert_node g2 ''C'' vc)
      in case Graph_insert_edge g3 (''A'', ''B'') 5 of
           Inl e \<Rightarrow> Inl e
         | Inr (_, g4) \<Rightarrow>
             (case Graph_insert_edge g4 (''A'', ''C'') 2 of
                Inl e \<Rightarrow> Inl e
              | Inr (_, g5) \<Rightarrow>
                  (case Graph_insert_edge g5 (''B'', ''C'') 1 of
                     Inl e \<Rightarrow> Inl e
                   | Inr (_, g6) \<Rightarrow> Inr g6)))"

text \<open>A store with the graph \<open>ex_A\<close> at address 1 and the graph \<open>ex_AB\<close> at address 2.\<close>

definition ex_store :: "(string, nat, int) store" where
  "ex_store a = (if a = 1 then ex_A else if a = 2 then ex_AB else Graph_default)"

section \<open>Properties of the container model\<close>

subsection \<open>Auxiliary facts\<close>

lemma umap_find_None [simp]: "(umap_find m k = None) = (map_of m k = None)"
  by (simp add: umap_find_def split: option.splits)

lemma umap_find_Some [simp]: "(umap_find m k = Some e) = (\<exists>v. map_of m k = Some v \<and> e = (k, v))"
  by (auto simp: umap_find_def split: option.splits)

lemma umap_insert_absent:
  "map_of m k = None \<Longrightarrow> umap_insert m (k, v) = (((k, v), True), m @ [(k, v)])"
  by (simp add: umap_insert_def split: option.splits)

lemma umap_insert_present:
  "map_of m k = Some v0 \<Longrightarrow> umap_insert m (k, v) = (((k, v0), False), m)"
  by (simp add: umap_insert_def umap_find_def)

lemma Graph_update_same:
  "map_of (m_umap g) k = Some n \<Longrightarrow> g\<lparr>m_umap := AList.update k n (m_umap g)\<rparr> = g"
  by (simp add: AList.update_triv)

lemma absent_iff: "(k \<notin> fst ` set m) = (map_of m k = None)"
  by (simp add: map_of_eq_None_iff)

lemma Graph_insert_edge_throws:
  "map_of (m_umap g) source = None \<or> map_of (m_umap g) target = None \<Longrightarrow>
     Graph_insert_edge g (source, target) weight = Inl KeyNotFound"
  by (auto simp: Graph_insert_edge_def Let_def split: option.splits)

lemma Graph_insert_edge_delegates:
  "map_of (m_umap g) source = Some n \<Longrightarrow> map_of (m_umap g) target = Some n' \<Longrightarrow>
     Graph_insert_edge g (source, target) weight =
       (case Node_insert_edge n target weight of
          (r, node') \<Rightarrow> Inr (r, g\<lparr>m_umap := AList.update source node' (m_umap g)\<rparr>))"
  by (simp add: Graph_insert_edge_def Let_def umap_find_def)

lemma Node_insert_edge_present:
  "map_of (m_edge n) key = Some w0 \<Longrightarrow> Node_insert_edge n key weight = (((key, w0), False), n)"
  by (simp add: Node_insert_edge_def umap_insert_present)

lemma Node_insert_edge_absent:
  "map_of (m_edge n) key = None \<Longrightarrow>
     Node_insert_edge n key weight =
       (((key, weight), True), n\<lparr>m_edge := m_edge n @ [(key, weight)]\<rparr>)"
  by (simp add: Node_insert_edge_def umap_insert_absent)

subsection \<open>Inserting edges\<close>

text \<open>
  Claim C1. \<open>Graph::insert_edge((source, target), weight)\<close> throws the "Key not found"
  exception when \<open>source\<close> or \<open>target\<close> has no entry in the node map. When both have one,
  the call is the source node's \<open>insert_edge(target, weight)\<close>, written back into the
  map: if the source node already has an edge to \<open>target\<close>, the result is that edge with
  the flag false and the graph is unchanged; otherwise the result is the new edge with
  the flag true, and the source node has gained exactly that edge.
\<close>

theorem insert_edge_spec:
  "(source \<notin> fst ` set (m_umap g) \<or> target \<notin> fst ` set (m_umap g) \<longrightarrow>
      Graph_insert_edge g (source, target) weight = Inl KeyNotFound) \<and>
   (\<forall>n n'. map_of (m_umap g) source = Some n \<and> map_of (m_umap g) target = Some n' \<longrightarrow>
      Graph_insert_edge g (source, target) weight =
        (case Node_insert_edge n target weight of
           (r, node') \<Rightarrow> Inr (r, g\<lparr>m_umap := AList.update source node' (m_umap g)\<rparr>)) \<and>
      (case map_of (m_edge n) target of
         Some w0 \<Rightarrow>
           Graph_insert_edge g (source, target) weight = Inr (((target, w0), False), g)
       | None \<Rightarrow>
           Graph_insert_edge g (source, target) weight =
             Inr (((target, weight), True),
                  g\<lparr>m_umap := AList.update source
                       (n\<lparr>m_edge := m_edge n @ [(target, weight)]\<rparr>) (m_umap g)\<rparr>)))"
proof (intro conjI impI allI)
  assume "source \<notin> fst ` set (m_umap g) \<or> target \<notin> fst ` set (m_umap g)"
  then show "Graph_insert_edge g (source, target) weight = Inl KeyNotFound"
    by (simp add: absent_iff Graph_insert_edge_throws)
next
  fix n n'
  assume "map_of (m_umap g) source = Some n \<and> map_of (m_umap g) target = Some n'"
  then show "Graph_insert_edge g (source, target) weight =
        (case Node_insert_edge n target weight of
           (r, node') \<Rightarrow> Inr (r, g\<lparr>m_umap := AList.update source node' (m_umap g)\<rparr>))"
    by (simp add: Graph_insert_edge_delegates)
next
  fix n n'
  assume h: "map_of (m_umap g) source = Some n \<and> map_of (m_umap g) target = Some n'"
  show "case map_of (m_edge n) target of
         Some w0 \<Rightarrow>
           Graph_insert_edge g (source, target) weight = Inr (((target, w0), False), g)
       | None \<Rightarrow>
           Graph_insert_edge g (source, target) weight =
             Inr (((target, weight), True),
                  g\<lparr>m_umap := AList.update source
                       (n\<lparr>m_edge := m_edge n @ [(target, weight)]\<rparr>) (m_umap g)\<rparr>)"
  proof (cases "map_of (m_edge n) target")
    case None
    with h show ?thesis
      by (simp add: Graph_insert_edge_delegates [of g source n target n'] Node_insert_edge_absent)
  next
    case (Some w0)
    with h show ?thesis
      by (simp add: Graph_insert_edge_delegates [of g source n target n']
            Node_insert_edge_present Graph_update_same)
  qed
qed

theorem insert_edge_spec_witness:
  "Graph_insert_edge ex_A (''A'', ''ghost'') 1 = Inl KeyNotFound \<and>
   Graph_insert_edge ex_A (''A'', ''A'') 7 = Inr (((''A'', 7), True), ex_A_loop) \<and>
   Graph_insert_edge ex_A_loop (''A'', ''A'') 9 = Inr (((''A'', 7), False), ex_A_loop)"
proof -
  let ?n = "\<lparr>m_value = 1::nat, m_edge = [] :: (string \<times> int) list\<rparr>"
  let ?n7 = "\<lparr>m_value = 1::nat, m_edge = [(''A'', 7::int)]\<rparr>"
  have ghost: "''A'' \<notin> fst ` set (m_umap ex_A) \<or> ''ghost'' \<notin> fst ` set (m_umap ex_A)"
    by (simp add: ex_A_def)
  have src: "map_of (m_umap ex_A) ''A'' = Some ?n \<and> map_of (m_umap ex_A) ''A'' = Some ?n"
    by (simp add: ex_A_def)
  have src7: "map_of (m_umap ex_A_loop) ''A'' = Some ?n7 \<and> map_of (m_umap ex_A_loop) ''A'' = Some ?n7"
    by (simp add: ex_A_loop_def)
  from insert_edge_spec [of "''A''" ex_A "''ghost''" 1] ghost
  have t1: "Graph_insert_edge ex_A (''A'', ''ghost'') 1 = Inl KeyNotFound"
    by blast
  from insert_edge_spec [of "''A''" ex_A "''A''" 7] src
  have "case map_of (m_edge ?n) ''A'' of
          Some w0 \<Rightarrow> Graph_insert_edge ex_A (''A'', ''A'') 7 = Inr (((''A'', w0), False), ex_A)
        | None \<Rightarrow> Graph_insert_edge ex_A (''A'', ''A'') 7 =
             Inr (((''A'', 7), True),
                  ex_A\<lparr>m_umap := AList.update ''A''
                       (?n\<lparr>m_edge := m_edge ?n @ [(''A'', 7)]\<rparr>) (m_umap ex_A)\<rparr>)"
    by blast
  then have t2: "Graph_insert_edge ex_A (''A'', ''A'') 7 = Inr (((''A'', 7), True), ex_A_loop)"
    by (simp add: ex_A_def ex_A_loop_def)
  from insert_edge_spec [of "''A''" ex_A_loop "''A''" 9] src7
  have "case map_of (m_edge ?n7) ''A'' of
          Some w0 \<Rightarrow> Graph_insert_edge ex_A_loop (''A'', ''A'') 9 = Inr (((''A'', w0), False), ex_A_loop)
        | None \<Rightarrow> Graph_insert_edge ex_A_loop (''A'', ''A'') 9 =
             Inr (((''A'', 9), True),
                  ex_A_loop\<lparr>m_umap := AList.update ''A''
                       (?n7\<lparr>m_edge := m_edge ?n7 @ [(''A'', 9)]\<rparr>) (m_umap ex_A_loop)\<rparr>)"
    by blast
  then have t3: "Graph_insert_edge ex_A_loop (''A'', ''A'') 9 = Inr (((''A'', 7), False), ex_A_loop)"
    by simp
  from t1 t2 t3 show ?thesis by simp
qed

text \<open>
  Claim C2 says that \<open>insert_edge\<close> does not validate the target key, so that a missing
  target alone never makes it throw. The code compares the lookup of the target with
  \<open>end()\<close> as well: in the graph whose only node is \<open>A\<close>, inserting the edge from \<open>A\<close> to
  \<open>ghost\<close> throws.
\<close>

theorem insert_edge_target_unchecked_counterexample:
  "''A'' \<in> fst ` set (m_umap ex_A) \<and> ''ghost'' \<notin> fst ` set (m_umap ex_A) \<and>
   Graph_insert_edge ex_A (''A'', ''ghost'') 1 = Inl KeyNotFound"
  by (simp add: ex_A_def Graph_insert_edge_def umap_find_def)

text \<open>
  Claim C2, amended. \<open>Graph::insert_edge\<close> looks up both endpoints and validates both:
  for every graph that contains the source key but not the target key,
  \<open>insert_edge((source, target), weight)\<close> throws the "Key not found" exception.
\<close>

theorem insert_edge_checks_target:
  "source \<in> fst ` set (m_umap g) \<Longrightarrow> target \<notin> fst ` set (m_umap g) \<Longrightarrow>
     Graph_insert_edge g (source, target) weight = Inl KeyNotFound"
  by (simp add: absent_iff Graph_insert_edge_throws)

theorem insert_edge_checks_target_witness:
  "''A'' \<in> fst ` set (m_umap ex_A) \<and> ''ghost'' \<notin> fst ` set (m_umap ex_A) \<and>
   Graph_insert_edge ex_A (''A'', ''ghost'') 5 = Inl KeyNotFound"
proof -
  have s: "''A'' \<in> fst ` set (m_umap ex_A)" by (simp add: ex_A_def)
  have t: "''ghost'' \<notin> fst ` set (m_umap ex_A)" by (simp add: ex_A_def)
  from insert_edge_checks_target [OF s t, of 5] s t show ?thesis by simp
qed

lemma Graph_insert_or_assign_edge_throws:
  "map_of (m_umap g) source = None \<Longrightarrow>
     Graph_insert_or_assign_edge g (source, target) weight = Inl KeyNotFound"
  by (simp add: Graph_insert_or_assign_edge_def umap_find_def)

lemma Graph_insert_or_assign_edge_delegates:
  "map_of (m_umap g) source = Some n \<Longrightarrow>
     Graph_insert_or_assign_edge g (source, target) weight =
       (case Node_insert_or_assign_edge n target weight of
          (r, node') \<Rightarrow> Inr (r, g\<lparr>m_umap := AList.update source node' (m_umap g)\<rparr>))"
  by (simp add: Graph_insert_or_assign_edge_def umap_find_def)

lemma Node_insert_or_assign_edge_result:
  "Node_insert_or_assign_edge n key weight =
     (((key, weight), map_of (m_edge n) key = None),
      n\<lparr>m_edge := AList.update key weight (m_edge n)\<rparr>)"
  by (simp add: Node_insert_or_assign_edge_def umap_insert_or_assign_def)

text \<open>
  Claim C3. \<open>Graph::insert_or_assign_edge((source, target), weight)\<close> throws if and only
  if \<open>source\<close> has no entry in the node map, and what it throws is the "Key not found"
  exception; the target is not looked up. When \<open>source\<close> has a node, the call is that
  node's \<open>insert_or_assign_edge(target, weight)\<close>, written back into the map: the node
  keeps its value, its edge to \<open>target\<close> now has the given weight, its other edges are
  as before, and the flag is true exactly when the node had no edge to \<open>target\<close>.
\<close>

theorem insert_or_assign_edge_spec:
  "(isl (Graph_insert_or_assign_edge g (source, target) weight) =
      (source \<notin> fst ` set (m_umap g))) \<and>
   (source \<notin> fst ` set (m_umap g) \<longrightarrow>
      Graph_insert_or_assign_edge g (source, target) weight = Inl KeyNotFound) \<and>
   (\<forall>n. map_of (m_umap g) source = Some n \<longrightarrow>
      Graph_insert_or_assign_edge g (source, target) weight =
        (case Node_insert_or_assign_edge n target weight of
           (r, node') \<Rightarrow> Inr (r, g\<lparr>m_umap := AList.update source node' (m_umap g)\<rparr>)) \<and>
      (\<exists>node'. Graph_insert_or_assign_edge g (source, target) weight =
          Inr (((target, weight), target \<notin> fst ` set (m_edge n)),
               g\<lparr>m_umap := AList.update source node' (m_umap g)\<rparr>) \<and>
          m_value node' = m_value n \<and>
          map_of (m_edge node') = (map_of (m_edge n))(target \<mapsto> weight)))"
proof (intro conjI impI allI)
  show "isl (Graph_insert_or_assign_edge g (source, target) weight) =
      (source \<notin> fst ` set (m_umap g))"
    by (cases "map_of (m_umap g) source")
       (simp_all add: absent_iff Graph_insert_or_assign_edge_throws
          Graph_insert_or_assign_edge_delegates Node_insert_or_assign_edge_result)
next
  assume "source \<notin> fst ` set (m_umap g)"
  then show "Graph_insert_or_assign_edge g (source, target) weight = Inl KeyNotFound"
    by (simp add: absent_iff Graph_insert_or_assign_edge_throws)
next
  fix n assume "map_of (m_umap g) source = Some n"
  then show "Graph_insert_or_assign_edge g (source, target) weight =
        (case Node_insert_or_assign_edge n target weight of
           (r, node') \<Rightarrow> Inr (r, g\<lparr>m_umap := AList.update source node' (m_umap g)\<rparr>))"
    by (rule Graph_insert_or_assign_edge_delegates)
next
  fix n assume h: "map_of (m_umap g) source = Some n"
  show "\<exists>node'. Graph_insert_or_assign_edge g (source, target) weight =
          Inr (((target, weight), target \<notin> fst ` set (m_edge n)),
               g\<lparr>m_umap := AList.update source node' (m_umap g)\<rparr>) \<and>
          m_value node' = m_value n \<and>
          map_of (m_edge node') = (map_of (m_edge n))(target \<mapsto> weight)"
    by (rule exI [of _ "n\<lparr>m_edge := AList.update target weight (m_edge n)\<rparr>"])
       (simp add: Graph_insert_or_assign_edge_delegates [OF h]
          Node_insert_or_assign_edge_result absent_iff AList.update_conv')
qed

theorem insert_or_assign_edge_spec_witness:
  "Graph_insert_or_assign_edge ex_A (''ghost'', ''A'') 3 = Inl KeyNotFound \<and>
   Graph_insert_or_assign_edge ex_A (''A'', ''ghost'') 3 =
     Inr (((''ghost'', 3), True),
          \<lparr>m_umap = [(''A'', \<lparr>m_value = 1, m_edge = [(''ghost'', 3)]\<rparr>)]\<rparr>) \<and>
   Graph_insert_or_assign_edge ex_A_loop (''A'', ''A'') 9 =
     Inr (((''A'', 9), False),
          \<lparr>m_umap = [(''A'', \<lparr>m_value = 1, m_edge = [(''A'', 9)]\<rparr>)]\<rparr>)"
proof -
  let ?n = "\<lparr>m_value = 1::nat, m_edge = [] :: (string \<times> int) list\<rparr>"
  let ?n7 = "\<lparr>m_value = 1::nat, m_edge = [(''A'', 7::int)]\<rparr>"
  have ghost: "''ghost'' \<notin> fst ` set (m_umap ex_A)"
    by (simp add: ex_A_def)
  have src: "map_of (m_umap ex_A) ''A'' = Some ?n"
    by (simp add: ex_A_def)
  have src7: "map_of (m_umap ex_A_loop) ''A'' = Some ?n7"
    by (simp add: ex_A_loop_def)
  from insert_or_assign_edge_spec [of ex_A "''ghost''" "''A''" 3] ghost
  have t1: "Graph_insert_or_assign_edge ex_A (''ghost'', ''A'') 3 = Inl KeyNotFound"
    by blast
  from insert_or_assign_edge_spec [of ex_A "''A''" "''ghost''" 3] src
  have "Graph_insert_or_assign_edge ex_A (''A'', ''ghost'') 3 =
        (case Node_insert_or_assign_edge ?n ''ghost'' 3 of
           (r, node') \<Rightarrow> Inr (r, ex_A\<lparr>m_umap := AList.update ''A'' node' (m_umap ex_A)\<rparr>))"
    by blast
  then have t2: "Graph_insert_or_assign_edge ex_A (''A'', ''ghost'') 3 =
     Inr (((''ghost'', 3), True),
          \<lparr>m_umap = [(''A'', \<lparr>m_value = 1, m_edge = [(''ghost'', 3)]\<rparr>)]\<rparr>)"
    by (simp add: ex_A_def Node_insert_or_assign_edge_def umap_insert_or_assign_def)
  from insert_or_assign_edge_spec [of ex_A_loop "''A''" "''A''" 9] src7
  have "Graph_insert_or_assign_edge ex_A_loop (''A'', ''A'') 9 =
        (case Node_insert_or_assign_edge ?n7 ''A'' 9 of
           (r, node') \<Rightarrow> Inr (r, ex_A_loop\<lparr>m_umap := AList.update ''A'' node' (m_umap ex_A_loop)\<rparr>))"
    by blast
  then have t3: "Graph_insert_or_assign_edge ex_A_loop (''A'', ''A'') 9 =
     Inr (((''A'', 9), False),
          \<lparr>m_umap = [(''A'', \<lparr>m_value = 1, m_edge = [(''A'', 9)]\<rparr>)]\<rparr>)"
    by (simp add: ex_A_loop_def Node_insert_or_assign_edge_def umap_insert_or_assign_def)
  from t1 t2 t3 show ?thesis by simp
qed

subsection \<open>Lookups and degrees\<close>

lemma Graph_at_absent: "map_of (m_umap g) k = None \<Longrightarrow> Graph_at g k = Inl KeyNotFound"
  by (simp add: Graph_at_def umap_find_def)

lemma Graph_at_present: "map_of (m_umap g) k = Some n \<Longrightarrow> Graph_at g k = Inr n"
  by (simp add: Graph_at_def umap_find_def)

lemma degree_in_absent: "map_of (m_umap g) k = None \<Longrightarrow> degree_in g k = Inl KeyNotFound"
  by (simp add: degree_in_def)

lemma degree_in_present:
  "map_of (m_umap g) k = Some n \<Longrightarrow> degree_in g k = Inr (degree_in_loop k (m_umap g) 0)"
  by (simp add: degree_in_def)

lemma degree_out_absent: "map_of (m_umap g) k = None \<Longrightarrow> degree_out g k = Inl KeyNotFound"
  by (simp add: degree_out_def umap_find_def)

lemma degree_out_present:
  "map_of (m_umap g) k = Some n \<Longrightarrow> degree_out g k = Inr (length (m_edge n))"
  by (simp add: degree_out_def umap_find_def umap_size_def getedges_def)

lemma loop_absent: "map_of (m_umap g) k = None \<Longrightarrow> loop g k = Inl KeyNotFound"
  by (simp add: loop_def umap_find_def)

lemma loop_present:
  "map_of (m_umap g) k = Some n \<Longrightarrow> loop g k = Inr (map_of (m_edge n) k \<noteq> None)"
  by (auto simp: loop_def getedges_def split: option.splits)

text \<open>
  Claim C4. For a key \<open>k\<close> with no entry in the node map, each of \<open>at(k)\<close>,
  \<open>degree_in(k)\<close>, \<open>degree_out(k)\<close> and \<open>loop(k)\<close> throws the "Key not found" exception;
  for a key with an entry, each of them returns a value.
\<close>

theorem key_not_found_spec:
  "(k \<notin> fst ` set (m_umap g) \<longrightarrow>
      Graph_at g k = Inl KeyNotFound \<and> degree_in g k = Inl KeyNotFound \<and>
      degree_out g k = Inl KeyNotFound \<and> loop g k = Inl KeyNotFound) \<and>
   (k \<in> fst ` set (m_umap g) \<longrightarrow>
      (\<exists>n. Graph_at g k = Inr n) \<and> (\<exists>d. degree_in g k = Inr d) \<and>
      (\<exists>d. degree_out g k = Inr d) \<and> (\<exists>b. loop g k = Inr b))"
proof (intro conjI impI)
  assume "k \<notin> fst ` set (m_umap g)"
  then have a: "map_of (m_umap g) k = None" by (simp add: absent_iff)
  from a show "Graph_at g k = Inl KeyNotFound" by (rule Graph_at_absent)
  from a show "degree_in g k = Inl KeyNotFound" by (rule degree_in_absent)
  from a show "degree_out g k = Inl KeyNotFound" by (rule degree_out_absent)
  from a show "loop g k = Inl KeyNotFound" by (rule loop_absent)
next
  assume "k \<in> fst ` set (m_umap g)"
  then obtain n where p: "map_of (m_umap g) k = Some n"
    using absent_iff [of k "m_umap g"] by auto
  from p show "\<exists>n. Graph_at g k = Inr n" by (simp add: Graph_at_present)
  from p show "\<exists>d. degree_in g k = Inr d" by (simp add: degree_in_present)
  from p show "\<exists>d. degree_out g k = Inr d" by (simp add: degree_out_present)
  from p show "\<exists>b. loop g k = Inr b" by (simp add: loop_present)
qed

theorem key_not_found_spec_witness:
  "Graph_at ex_AB ''C'' = Inl KeyNotFound \<and> degree_in ex_AB ''C'' = Inl KeyNotFound \<and>
   degree_out ex_AB ''C'' = Inl KeyNotFound \<and> loop ex_AB ''C'' = Inl KeyNotFound \<and>
   (\<exists>n. Graph_at ex_AB ''B'' = Inr n) \<and> (\<exists>d. degree_in ex_AB ''B'' = Inr d) \<and>
   (\<exists>d. degree_out ex_AB ''B'' = Inr d) \<and> (\<exists>b. loop ex_AB ''B'' = Inr b)"
proof -
  have c: "''C'' \<notin> fst ` set (m_umap ex_AB)" by (simp add: ex_AB_def)
  have b: "''B'' \<in> fst ` set (m_umap ex_AB)" by (simp add: ex_AB_def)
  from key_not_found_spec [of "''C''" ex_AB] key_not_found_spec [of "''B''" ex_AB] c b
  show ?thesis by blast
qed

subsection \<open>The invariant is kept\<close>

lemma present_iff: "(k \<in> fst ` set m) = (\<exists>v. map_of m k = Some v)"
  using absent_iff [of k m] by auto

lemma umap_wf_append:
  "umap_wf m \<Longrightarrow> map_of m k = None \<Longrightarrow> umap_wf (m @ [(k, v)])"
  by (simp add: umap_wf_def map_of_eq_None_iff)

lemma umap_wf_update: "umap_wf m \<Longrightarrow> umap_wf (AList.update k v m)"
  by (simp add: umap_wf_def distinct_update)

lemma umap_wf_insert: "umap_wf m \<Longrightarrow> umap_wf (snd (umap_insert m e))"
  by (cases e) (auto simp: umap_insert_def umap_wf_append split: option.splits)

lemma list_all_update:
  "list_all P m \<Longrightarrow> P (k, v) \<Longrightarrow> list_all P (AList.update k v m)"
  by (induction m) auto

lemma Graph_wf_default: "Graph_wf Graph_default"
  by (simp add: Graph_wf_def Graph_default_def umap_wf_def)

lemma Graph_wf_node:
  "Graph_wf g \<Longrightarrow> map_of (m_umap g) k = Some n \<Longrightarrow> umap_wf (m_edge n)"
proof -
  assume wf: "Graph_wf g" and "map_of (m_umap g) k = Some n"
  then have "(k, n) \<in> set (m_umap g)" by (simp add: map_of_SomeD)
  with wf show ?thesis by (auto simp: Graph_wf_def list_all_iff)
qed

lemma Graph_wf_insert_node: "Graph_wf g \<Longrightarrow> Graph_wf (snd (insert_node g k val))"
  by (auto simp: Graph_wf_def insert_node_def umap_insert_def umap_wf_append Node_ctor_def
        umap_wf_def [of "[]"] split: option.splits)

lemma Graph_wf_insert_or_assign_node:
  "Graph_wf g \<Longrightarrow> Graph_wf (snd (insert_or_assign_node g k val))"
  by (simp add: Graph_wf_def insert_or_assign_node_def umap_insert_or_assign_def
        umap_wf_update list_all_update Node_ctor_def umap_wf_def [of "[]"])

lemma Graph_wf_insert_edge:
  assumes "Graph_wf g" and "Graph_insert_edge g (source, target) weight = Inr (r, g')"
  shows "Graph_wf g'"
proof -
  from assms(2) obtain n where n: "map_of (m_umap g) source = Some n"
    and g': "g' = g\<lparr>m_umap := AList.update source (snd (Node_insert_edge n target weight)) (m_umap g)\<rparr>"
    by (auto simp: Graph_insert_edge_def Let_def split: option.splits prod.splits)
  from assms(1) n have "umap_wf (m_edge n)" by (rule Graph_wf_node)
  then have "umap_wf (m_edge (snd (Node_insert_edge n target weight)))"
    by (cases "map_of (m_edge n) target")
       (simp_all add: Node_insert_edge_absent Node_insert_edge_present umap_wf_append)
  with assms(1) show ?thesis
    by (simp add: g' Graph_wf_def umap_wf_update list_all_update)
qed

lemma Graph_wf_insert_or_assign_edge:
  assumes "Graph_wf g" and "Graph_insert_or_assign_edge g (source, target) weight = Inr (r, g')"
  shows "Graph_wf g'"
proof -
  from assms(2) obtain n where n: "map_of (m_umap g) source = Some n"
    and g': "g' = g\<lparr>m_umap := AList.update source
                 (n\<lparr>m_edge := AList.update target weight (m_edge n)\<rparr>) (m_umap g)\<rparr>"
    by (auto simp: Graph_insert_or_assign_edge_def Node_insert_or_assign_edge_result
          split: option.splits)
  from assms(1) n have "umap_wf (m_edge n)" by (rule Graph_wf_node)
  with assms(1) show ?thesis
    by (simp add: g' Graph_wf_def umap_wf_update list_all_update)
qed

subsection \<open>Degrees\<close>

lemma degree_in_loop_filter:
  "degree_in_loop key m counter =
     counter + length (filter (\<lambda>elem. key \<in> fst ` set (m_edge (snd elem))) m)"
  by (induction m arbitrary: counter) (simp_all add: getedges_def present_iff)

lemma count_entries:
  "distinct (map fst m) \<Longrightarrow>
     length (filter (\<lambda>elem. P (snd elem)) m) = card {s. \<exists>n. map_of m s = Some n \<and> P n}"
proof (induction m)
  case Nil
  then show ?case by simp
next
  case (Cons e m)
  obtain a n where e: "e = (a, n)" by (cases e)
  let ?S = "{s. \<exists>n'. map_of m s = Some n' \<and> P n'}"
  from Cons.prems e have fresh: "a \<notin> fst ` set m" and d: "distinct (map fst m)"
    by simp_all
  from fresh have none: "map_of m a = None" by (simp add: absent_iff)
  have fin: "finite ?S"
    by (rule finite_subset [of _ "fst ` set m"]) (auto simp: present_iff)
  from none have notin: "a \<notin> ?S" by simp
  have split: "{s. \<exists>n'. map_of (e # m) s = Some n' \<and> P n'} =
               (if P n then insert a ?S else ?S)"
    using none by (auto simp: e)
  show ?case
  proof (cases "P n")
    case True
    have "card {s. \<exists>n'. map_of (e # m) s = Some n' \<and> P n'} = Suc (card ?S)"
      by (simp only: split True if_True card_insert_disjoint [OF fin notin])
    with True Cons.IH [OF d] show ?thesis by (simp add: e)
  next
    case False
    have "card {s. \<exists>n'. map_of (e # m) s = Some n' \<and> P n'} = card ?S"
      by (simp only: split False if_False)
    with False Cons.IH [OF d] show ?thesis by (simp add: e)
  qed
qed

lemma degree_in_card:
  assumes "Graph_wf g" and "map_of (m_umap g) k = Some n"
  shows "degree_in g k =
           Inr (card {s. \<exists>ns. map_of (m_umap g) s = Some ns \<and> k \<in> fst ` set (getedges ns)})"
proof -
  from assms(1) have "distinct (map fst (m_umap g))"
    by (simp add: Graph_wf_def umap_wf_def)
  from count_entries [OF this, of "\<lambda>ns. k \<in> fst ` set (getedges ns)"] assms(2)
  show ?thesis
    by (simp add: degree_in_present degree_in_loop_filter getedges_def)
qed

lemma degree_out_card:
  assumes "Graph_wf g" and "map_of (m_umap g) k = Some n"
  shows "degree_out g k = Inr (card (set (getedges n)))"
proof -
  from assms have "distinct (map fst (m_edge n))"
    using Graph_wf_node [of g k n] by (simp add: umap_wf_def)
  then have "distinct (m_edge n)" by (simp add: distinct_map)
  then show ?thesis
    using assms(2) by (simp add: degree_out_present getedges_def distinct_card)
qed

lemma degree_scenario_value:
  "degree_scenario va vb vc =
     Inr \<lparr>m_umap = [(''A'', \<lparr>m_value = va, m_edge = [(''B'', 5), (''C'', 2)]\<rparr>),
                    (''B'', \<lparr>m_value = vb, m_edge = [(''C'', 1)]\<rparr>),
                    (''C'', \<lparr>m_value = vc, m_edge = []\<rparr>)]\<rparr>"
  by (simp add: degree_scenario_def insert_node_def Graph_default_def Node_ctor_def
        umap_insert_def umap_find_def Graph_insert_edge_def Node_insert_edge_def)

text \<open>
  Claim C5. In a graph whose keys are unique, for a key \<open>k\<close> that has the node \<open>n\<close>:
  \<open>degree_in(k)\<close> is the number of keys whose node has an edge to \<open>k\<close>, \<open>degree_out(k)\<close>
  is the number of edges of \<open>n\<close>, and \<open>loop(k)\<close> is true exactly when \<open>n\<close> has an edge to
  \<open>k\<close>. In the graph built from nodes \<open>A\<close>, \<open>B\<close>, \<open>C\<close> and the edges \<open>A\<close> to \<open>B\<close> (weight 5),
  \<open>A\<close> to \<open>C\<close> (weight 2) and \<open>B\<close> to \<open>C\<close> (weight 1): \<open>degree_out(A)\<close> is 2,
  \<open>degree_out(C)\<close> is 0, \<open>degree_in(C)\<close> is 2, \<open>degree_in(A)\<close> is 0 and \<open>loop(A)\<close> is false.
\<close>

theorem degree_spec:
  "(Graph_wf g \<and> map_of (m_umap g) k = Some n \<longrightarrow>
      degree_in g k =
        Inr (card {s. \<exists>ns. map_of (m_umap g) s = Some ns \<and> k \<in> fst ` set (getedges ns)}) \<and>
      degree_out g k = Inr (card (set (getedges n))) \<and>
      loop g k = Inr (k \<in> fst ` set (getedges n))) \<and>
   (\<exists>gs. degree_scenario va vb vc = Inr gs \<and>
      degree_out gs ''A'' = Inr 2 \<and> degree_out gs ''C'' = Inr 0 \<and>
      degree_in gs ''C'' = Inr 2 \<and> degree_in gs ''A'' = Inr 0 \<and>
      loop gs ''A'' = Inr False)"
proof (intro conjI impI)
  assume h: "Graph_wf g \<and> map_of (m_umap g) k = Some n"
  then show "degree_in g k =
        Inr (card {s. \<exists>ns. map_of (m_umap g) s = Some ns \<and> k \<in> fst ` set (getedges ns)})"
    by (simp add: degree_in_card)
  from h show "degree_out g k = Inr (card (set (getedges n)))"
    by (simp add: degree_out_card)
  from h show "loop g k = Inr (k \<in> fst ` set (getedges n))"
    by (simp add: loop_present getedges_def present_iff)
next
  show "\<exists>gs. degree_scenario va vb vc = Inr gs \<and>
      degree_out gs ''A'' = Inr 2 \<and> degree_out gs ''C'' = Inr 0 \<and>
      degree_in gs ''C'' = Inr 2 \<and> degree_in gs ''A'' = Inr 0 \<and>
      loop gs ''A'' = Inr False"
    by (simp add: degree_scenario_value degree_out_def degree_in_def loop_def umap_find_def
          umap_size_def getedges_def)
qed

theorem degree_spec_witness:
  "Graph_wf ex_AB \<and> degree_in ex_AB ''B'' = Inr 1 \<and> degree_out ex_AB ''A'' = Inr 1 \<and>
   loop ex_AB ''A'' = Inr False \<and> loop ex_A_loop ''A'' = Inr True"
proof -
  let ?a = "\<lparr>m_value = 1::nat, m_edge = [(''B'', 5::int)]\<rparr>"
  let ?b = "\<lparr>m_value = 2::nat, m_edge = [] :: (string \<times> int) list\<rparr>"
  let ?l = "\<lparr>m_value = 1::nat, m_edge = [(''A'', 7::int)]\<rparr>"
  have wf: "Graph_wf ex_AB"
    by (simp add: Graph_wf_def umap_wf_def ex_AB_def)
  have wfl: "Graph_wf ex_A_loop"
    by (simp add: Graph_wf_def umap_wf_def ex_A_loop_def)
  have a: "map_of (m_umap ex_AB) ''A'' = Some ?a" by (simp add: ex_AB_def)
  have b: "map_of (m_umap ex_AB) ''B'' = Some ?b" by (simp add: ex_AB_def)
  have l: "map_of (m_umap ex_A_loop) ''A'' = Some ?l" by (simp add: ex_A_loop_def)
  have set_eq: "{s. \<exists>ns. map_of (m_umap ex_AB) s = Some ns \<and> ''B'' \<in> fst ` set (getedges ns)}
                  = {''A''}"
    by (auto simp: ex_AB_def getedges_def split: if_splits)
  from degree_spec [of ex_AB "''B''" ?b, THEN conjunct1] wf b
  have "degree_in ex_AB ''B'' =
        Inr (card {s. \<exists>ns. map_of (m_umap ex_AB) s = Some ns \<and> ''B'' \<in> fst ` set (getedges ns)})"
    by blast
  then have t1: "degree_in ex_AB ''B'' = Inr 1" by (simp add: set_eq)
  from degree_spec [of ex_AB "''A''" ?a, THEN conjunct1] wf a
  have "degree_out ex_AB ''A'' = Inr (card (set (getedges ?a)))"
    and "loop ex_AB ''A'' = Inr (''A'' \<in> fst ` set (getedges ?a))"
    by blast+
  then have t2: "degree_out ex_AB ''A'' = Inr 1" and t3: "loop ex_AB ''A'' = Inr False"
    by (simp_all add: getedges_def)
  from degree_spec [of ex_A_loop "''A''" ?l, THEN conjunct1] wfl l
  have "loop ex_A_loop ''A'' = Inr (''A'' \<in> fst ` set (getedges ?l))"
    by blast
  then have t4: "loop ex_A_loop ''A'' = Inr True" by (simp add: getedges_def)
  from wf t1 t2 t3 t4 show ?thesis by simp
qed

subsection \<open>Inserting nodes\<close>

lemma insert_or_assign_node_result:
  "insert_or_assign_node g k val =
     (((k, Node_ctor val), k \<notin> fst ` set (m_umap g)),
      g\<lparr>m_umap := AList.update k (Node_ctor val) (m_umap g)\<rparr>)"
  by (simp add: insert_or_assign_node_def umap_insert_or_assign_def absent_iff)

lemma insert_node_absent:
  "map_of (m_umap g) k = None \<Longrightarrow>
     insert_node g k val =
       (((k, Node_ctor val), True), g\<lparr>m_umap := m_umap g @ [(k, Node_ctor val)]\<rparr>)"
  by (simp add: insert_node_def umap_insert_absent)

lemma insert_node_present:
  "map_of (m_umap g) k = Some n \<Longrightarrow> insert_node g k val = (((k, n), False), g)"
  by (simp add: insert_node_def umap_insert_present)

text \<open>
  Claim C6. \<open>insert_or_assign_node(k, v2)\<close> puts a fresh node holding \<open>v2\<close> under \<open>k\<close>,
  whatever was there: afterwards \<open>at(k)\<close> is a node with value \<open>v2\<close> and no edges, every
  other key has the node it had, and the returned flag is true exactly when \<open>k\<close> had no
  node before. In particular, after \<open>insert_or_assign_node(k, v1)\<close>, a second
  \<open>insert_or_assign_node(k, v2)\<close> returns the flag false and leaves value \<open>v2\<close> at \<open>k\<close>.
\<close>

theorem insert_or_assign_node_spec:
  "snd (fst (insert_or_assign_node g k v2)) = (k \<notin> fst ` set (m_umap g)) \<and>
   fst (fst (insert_or_assign_node g k v2)) = (k, Node_ctor v2) \<and>
   Graph_at (snd (insert_or_assign_node g k v2)) k = Inr (Node_ctor v2) \<and>
   getvalue (Node_ctor v2 :: ('k, 'v, 'w) Node) = v2 \<and>
   getedges (Node_ctor v2 :: ('k, 'v, 'w) Node) = [] \<and>
   (\<forall>k'. k' \<noteq> k \<longrightarrow>
      map_of (m_umap (snd (insert_or_assign_node g k v2))) k' = map_of (m_umap g) k') \<and>
   snd (fst (insert_or_assign_node (snd (insert_or_assign_node g k v1)) k v2)) = False \<and>
   Graph_at (snd (insert_or_assign_node (snd (insert_or_assign_node g k v1)) k v2)) k =
     Inr (Node_ctor v2)"
  for g :: "('k, 'v, 'w) Graph"
proof (intro conjI allI impI)
  show "snd (fst (insert_or_assign_node g k v2)) = (k \<notin> fst ` set (m_umap g))"
    by (simp add: insert_or_assign_node_result)
  show "fst (fst (insert_or_assign_node g k v2)) = (k, Node_ctor v2)"
    by (simp add: insert_or_assign_node_result)
  show "Graph_at (snd (insert_or_assign_node g k v2)) k = Inr (Node_ctor v2)"
    by (simp add: insert_or_assign_node_result Graph_at_present AList.update_conv')
  show "getvalue (Node_ctor v2 :: ('k, 'v, 'w) Node) = v2"
    by (simp add: getvalue_def Node_ctor_def)
  show "getedges (Node_ctor v2 :: ('k, 'v, 'w) Node) = []"
    by (simp add: getedges_def Node_ctor_def)
  show "snd (fst (insert_or_assign_node (snd (insert_or_assign_node g k v1)) k v2)) = False"
    by (simp add: insert_or_assign_node_result AList.dom_update)
  show "Graph_at (snd (insert_or_assign_node (snd (insert_or_assign_node g k v1)) k v2)) k =
     Inr (Node_ctor v2)"
    by (simp add: insert_or_assign_node_result Graph_at_present AList.update_conv')
next
  fix k' assume "k' \<noteq> k"
  then show "map_of (m_umap (snd (insert_or_assign_node g k v2))) k' = map_of (m_umap g) k'"
    by (simp add: insert_or_assign_node_result AList.update_conv')
qed

theorem insert_or_assign_node_spec_witness:
  "insert_or_assign_node ex_AB ''A'' 9 =
     (((''A'', \<lparr>m_value = 9, m_edge = []\<rparr>), False),
      \<lparr>m_umap = [(''A'', \<lparr>m_value = 9, m_edge = []\<rparr>), (''B'', \<lparr>m_value = 2, m_edge = []\<rparr>)]\<rparr>) \<and>
   Graph_at (snd (insert_or_assign_node ex_AB ''A'' 9)) ''A'' = Inr \<lparr>m_value = 9, m_edge = []\<rparr> \<and>
   map_of (m_umap (snd (insert_or_assign_node ex_AB ''A'' 9))) ''B'' =
     Some \<lparr>m_value = 2, m_edge = []\<rparr>"
proof -
  have ne: "''B'' \<noteq> ''A''" by simp
  have b: "map_of (m_umap ex_AB) ''B'' = Some \<lparr>m_value = 2, m_edge = []\<rparr>"
    by (simp add: ex_AB_def)
  have v: "insert_or_assign_node ex_AB ''A'' 9 =
     (((''A'', \<lparr>m_value = 9, m_edge = []\<rparr>), False),
      \<lparr>m_umap = [(''A'', \<lparr>m_value = 9, m_edge = []\<rparr>), (''B'', \<lparr>m_value = 2, m_edge = []\<rparr>)]\<rparr>)"
    by (simp add: insert_or_assign_node_def umap_insert_or_assign_def ex_AB_def Node_ctor_def)
  note spec = insert_or_assign_node_spec [of ex_AB "''A''" 9 9]
  from spec have "Graph_at (snd (insert_or_assign_node ex_AB ''A'' 9)) ''A'' = Inr (Node_ctor 9)"
    by (elim conjE)
  moreover from spec
  have "\<forall>k'. k' \<noteq> ''A'' \<longrightarrow>
          map_of (m_umap (snd (insert_or_assign_node ex_AB ''A'' 9))) k' = map_of (m_umap ex_AB) k'"
    by (elim conjE)
  from this [rule_format, OF ne]
  have "map_of (m_umap (snd (insert_or_assign_node ex_AB ''A'' 9))) ''B'' = map_of (m_umap ex_AB) ''B''" .
  ultimately show ?thesis using v b by (simp add: Node_ctor_def)
qed

text \<open>
  Claim C7. \<open>insert_node(k, v)\<close> on a key that has no node succeeds: it returns the new
  entry with the flag true, the graph has gained exactly the entry of \<open>k\<close> with a node
  holding \<open>v\<close> and no edges, every other key has the node it had, and the size has grown
  by one. When \<open>insert_node(k, v)\<close> returns the flag true, \<open>find(k)\<close> on the resulting
  graph gives an entry whose node holds \<open>v\<close>, and a following \<open>insert_node(k, v2)\<close> returns
  that entry with the flag false and leaves the graph as it is, so the value at \<open>k\<close> is
  still \<open>v\<close>. More generally \<open>insert_node\<close> on a key that has a node returns the flag
  false and changes nothing.
\<close>

theorem insert_node_spec:
  "(k \<notin> fst ` set (m_umap g) \<longrightarrow>
      insert_node g k v =
        (((k, Node_ctor v), True), g\<lparr>m_umap := m_umap g @ [(k, Node_ctor v)]\<rparr>) \<and>
      (\<exists>n. Graph_find (snd (insert_node g k v)) k = Some (k, n) \<and>
           getvalue n = v \<and> getedges n = []) \<and>
      (\<forall>k'. k' \<noteq> k \<longrightarrow>
         map_of (m_umap (snd (insert_node g k v))) k' = map_of (m_umap g) k') \<and>
      Graph_size (snd (insert_node g k v)) = Graph_size g + 1) \<and>
   (\<forall>h g'. insert_node g k v = ((h, True), g') \<longrightarrow>
      (\<exists>n. Graph_find g' k = Some (k, n) \<and> getvalue n = v \<and>
           insert_node g' k v2 = (((k, n), False), g')) \<and>
      (\<exists>n. Graph_find (snd (insert_node g' k v2)) k = Some (k, n) \<and> getvalue n = v)) \<and>
   (\<forall>n. map_of (m_umap g) k = Some n \<longrightarrow> insert_node g k v2 = (((k, n), False), g))"
proof (intro conjI allI impI)
  assume "k \<notin> fst ` set (m_umap g)"
  then have none: "map_of (m_umap g) k = None" by (simp add: absent_iff)
  then show new: "insert_node g k v =
        (((k, Node_ctor v), True), g\<lparr>m_umap := m_umap g @ [(k, Node_ctor v)]\<rparr>)"
    by (rule insert_node_absent)
  from none show "\<exists>n. Graph_find (snd (insert_node g k v)) k = Some (k, n) \<and>
           getvalue n = v \<and> getedges n = []"
    by (simp add: new Graph_find_def map_add_def getvalue_def getedges_def Node_ctor_def)
  show "Graph_size (snd (insert_node g k v)) = Graph_size g + 1"
    by (simp add: new Graph_size_def umap_size_def)
  fix k' assume "k' \<noteq> k"
  then show "map_of (m_umap (snd (insert_node g k v))) k' = map_of (m_umap g) k'"
    by (simp add: new map_add_def split: option.splits)
next
  fix h g'
  assume ok: "insert_node g k v = ((h, True), g')"
  have none: "map_of (m_umap g) k = None"
  proof (cases "map_of (m_umap g) k")
    case None
    then show ?thesis .
  next
    case (Some n)
    with ok show ?thesis by (simp add: insert_node_present)
  qed
  with ok have g': "g' = g\<lparr>m_umap := m_umap g @ [(k, Node_ctor v)]\<rparr>"
    by (auto simp: insert_node_absent)
  from none have at: "map_of (m_umap g') k = Some (Node_ctor v)"
    by (simp add: g' map_add_def)
  have val: "getvalue (Node_ctor v :: ('a, 'b, 'c) Node) = v"
    by (simp add: getvalue_def Node_ctor_def)
  from at val show "\<exists>n. Graph_find g' k = Some (k, n) \<and> getvalue n = v \<and>
           insert_node g' k v2 = (((k, n), False), g')"
    by (simp add: Graph_find_def insert_node_present)
  from at val show "\<exists>n. Graph_find (snd (insert_node g' k v2)) k = Some (k, n) \<and> getvalue n = v"
    by (simp add: Graph_find_def insert_node_present)
next
  fix n assume "map_of (m_umap g) k = Some n"
  then show "insert_node g k v2 = (((k, n), False), g)" by (rule insert_node_present)
qed

theorem insert_node_spec_witness:
  "insert_node ex_A ''B'' 2 =
     (((''B'', \<lparr>m_value = 2, m_edge = []\<rparr>), True),
      \<lparr>m_umap = [(''A'', \<lparr>m_value = 1, m_edge = []\<rparr>), (''B'', \<lparr>m_value = 2, m_edge = []\<rparr>)]\<rparr>) \<and>
   (\<exists>n. Graph_find \<lparr>m_umap = [(''A'', \<lparr>m_value = 1::nat, m_edge = [] :: (string \<times> int) list\<rparr>),
                               (''B'', \<lparr>m_value = 2, m_edge = []\<rparr>)]\<rparr> ''B'' = Some (''B'', n) \<and>
        getvalue n = 2 \<and>
        insert_node \<lparr>m_umap = [(''A'', \<lparr>m_value = 1, m_edge = []\<rparr>),
                               (''B'', \<lparr>m_value = 2, m_edge = []\<rparr>)]\<rparr> ''B'' 7 =
          (((''B'', n), False),
           \<lparr>m_umap = [(''A'', \<lparr>m_value = 1, m_edge = []\<rparr>), (''B'', \<lparr>m_value = 2, m_edge = []\<rparr>)]\<rparr>)) \<and>
   insert_node ex_A ''A'' 7 = (((''A'', \<lparr>m_value = 1, m_edge = []\<rparr>), False), ex_A) \<and>
   Graph_size (snd (insert_node ex_A ''B'' 2)) = 2"
proof -
  let ?g' = "\<lparr>m_umap = [(''A'', \<lparr>m_value = 1::nat, m_edge = [] :: (string \<times> int) list\<rparr>),
                        (''B'', \<lparr>m_value = 2, m_edge = []\<rparr>)]\<rparr>"
  have fresh: "''B'' \<notin> fst ` set (m_umap ex_A)" by (simp add: ex_A_def)
  note new = insert_node_spec [of "''B''" ex_A 2 7, THEN conjunct1, rule_format, OF fresh]
  from new
  have "insert_node ex_A ''B'' 2 =
          (((''B'', Node_ctor 2), True), ex_A\<lparr>m_umap := m_umap ex_A @ [(''B'', Node_ctor 2)]\<rparr>)"
    by (elim conjE)
  then have v: "insert_node ex_A ''B'' 2 = (((''B'', \<lparr>m_value = 2, m_edge = []\<rparr>), True), ?g')"
    by (simp add: ex_A_def Node_ctor_def)
  from new have "Graph_size (snd (insert_node ex_A ''B'' 2)) = Graph_size ex_A + 1"
    by (elim conjE)
  then have sz: "Graph_size (snd (insert_node ex_A ''B'' 2)) = 2"
    by (simp add: ex_A_def Graph_size_def umap_size_def)
  have a: "map_of (m_umap ex_A) ''A'' = Some \<lparr>m_value = 1, m_edge = []\<rparr>"
    by (simp add: ex_A_def)
  from insert_node_spec [of "''B''" ex_A 2 7, THEN conjunct2, THEN conjunct1] v
  have "\<exists>n. Graph_find ?g' ''B'' = Some (''B'', n) \<and> getvalue n = 2 \<and>
           insert_node ?g' ''B'' 7 = (((''B'', n), False), ?g')"
    by blast
  moreover
  from insert_node_spec [of "''A''" ex_A 2 7, THEN conjunct2, THEN conjunct2, rule_format, OF a]
  have "insert_node ex_A ''A'' 7 = (((''A'', \<lparr>m_value = 1, m_edge = []\<rparr>), False), ex_A)" .
  ultimately show ?thesis using v sz by simp
qed

subsection \<open>Copy, move and swap\<close>

lemma Graph_swap_this:
  "this \<noteq> graph \<Longrightarrow> Graph_swap st this graph this = (st this)\<lparr>m_umap := m_umap (st graph)\<rparr>"
  by (simp add: Graph_swap_def Let_def)

lemma Graph_swap_other:
  "Graph_swap st this graph graph = (st graph)\<lparr>m_umap := m_umap (st this)\<rparr>"
  by (simp add: Graph_swap_def Let_def)

lemma Graph_swap_frame:
  "x \<noteq> this \<Longrightarrow> x \<noteq> graph \<Longrightarrow> Graph_swap st this graph x = st x"
  by (simp add: Graph_swap_def Let_def)

lemma copy_ctor_this: "this \<noteq> graph \<Longrightarrow> copy_ctor st this graph this = st graph"
  by (simp add: copy_ctor_def Let_def Graph_default_def)

lemma copy_ctor_frame: "x \<noteq> this \<Longrightarrow> copy_ctor st this graph x = st x"
  by (simp add: copy_ctor_def Let_def)

text \<open>
  Claim C8 says that a move leaves the moved-from graph empty, for move construction and
  for move assignment alike. Move assignment is a swap: assigning the graph with the
  single node \<open>A\<close> (at address 1) to the object at address 2, which holds nodes \<open>A\<close> and
  \<open>B\<close>, leaves those two nodes in the moved-from object.
\<close>

theorem move_assign_source_counterexample:
  "Graph_empty (move_assign ex_store 2 1 1) = False \<and> move_assign ex_store 2 1 1 = ex_AB"
  by (simp add: move_assign_def Graph_swap_other ex_store_def Graph_empty_def umap_empty_def
        ex_AB_def)

text \<open>
  Claim C8, amended. After the move construction \<open>Graph g2 = std::move(g1)\<close>, \<open>g1\<close> is
  empty and \<open>g2\<close> holds the nodes and edges that \<open>g1\<close> had, unchanged; no other object
  changes. The move assignment \<open>g2 = std::move(g1)\<close> swaps the two node maps: \<open>g2\<close> holds
  what \<open>g1\<close> had and \<open>g1\<close> holds what \<open>g2\<close> had, so \<open>g1\<close> is left empty exactly when \<open>g2\<close>
  was empty before.
\<close>

theorem move_spec:
  "g2 \<noteq> g1 \<longrightarrow>
     Graph_empty (move_ctor st g2 g1 g1) \<and>
     move_ctor st g2 g1 g2 = st g1 \<and>
     (\<forall>x. x \<noteq> g2 \<and> x \<noteq> g1 \<longrightarrow> move_ctor st g2 g1 x = st x) \<and>
     move_assign st g2 g1 g2 = st g1 \<and>
     move_assign st g2 g1 g1 = st g2 \<and>
     Graph_empty (move_assign st g2 g1 g1) = Graph_empty (st g2)"
proof (intro impI conjI allI)
  assume ne: "g2 \<noteq> g1"
  show "Graph_empty (move_ctor st g2 g1 g1)"
    by (simp add: move_ctor_def Graph_swap_other Graph_default_def Graph_empty_def
          umap_empty_def)
  from ne show "move_ctor st g2 g1 g2 = st g1"
    by (simp add: move_ctor_def Graph_swap_this)
  from ne show "move_assign st g2 g1 g2 = st g1"
    by (simp add: move_assign_def Graph_swap_this)
  show "move_assign st g2 g1 g1 = st g2"
    by (simp add: move_assign_def Graph_swap_other)
  show "Graph_empty (move_assign st g2 g1 g1) = Graph_empty (st g2)"
    by (simp add: move_assign_def Graph_swap_other Graph_empty_def)
next
  fix x assume "g2 \<noteq> g1" and "x \<noteq> g2 \<and> x \<noteq> g1"
  then show "move_ctor st g2 g1 x = st x"
    by (simp add: move_ctor_def Graph_swap_frame)
qed

theorem move_spec_witness:
  "Graph_empty (move_ctor ex_store 3 2 2) \<and> move_ctor ex_store 3 2 3 = ex_AB \<and>
   move_ctor ex_store 3 2 1 = ex_A \<and>
   move_assign ex_store 3 2 3 = ex_AB \<and> Graph_empty (move_assign ex_store 3 2 2)"
proof -
  have ne: "(3::nat) \<noteq> 2" by simp
  have x: "(1::nat) \<noteq> 3 \<and> (1::nat) \<noteq> 2" by simp
  note spec = move_spec [of 3 2 ex_store, rule_format, OF ne]
  from spec have a: "Graph_empty (move_ctor ex_store 3 2 2)" by (elim conjE)
  from spec have b: "move_ctor ex_store 3 2 3 = ex_store 2" by (elim conjE)
  from spec have "\<forall>x. x \<noteq> 3 \<and> x \<noteq> 2 \<longrightarrow> move_ctor ex_store 3 2 x = ex_store x"
    by (elim conjE)
  from this [rule_format, OF x] have c: "move_ctor ex_store 3 2 1 = ex_store 1" .
  from spec have d: "move_assign ex_store 3 2 3 = ex_store 2" by (elim conjE)
  from spec have e: "Graph_empty (move_assign ex_store 3 2 2) = Graph_empty (ex_store 3)"
    by (elim conjE)
  from a b c d e show ?thesis
    by (simp add: ex_store_def Graph_empty_def umap_empty_def Graph_default_def)
qed

text \<open>
  Claim C9. The free function \<open>graph::swap(graph1, graph2)\<close> takes its parameters by
  value: called on two graphs, it swaps the two parameter objects, which are copies,
  and the graphs it was called on, like every object other than the two parameters,
  are as before. The member
  \<open>Graph::swap(other)\<close> exchanges the contents of the two graphs.
\<close>

theorem free_swap_spec:
  "(graph1 \<notin> {a, b} \<and> graph2 \<notin> {a, b} \<longrightarrow>
      free_swap st graph1 graph2 a b a = st a \<and> free_swap st graph1 graph2 a b b = st b) \<and>
   (\<forall>x. x \<noteq> graph1 \<and> x \<noteq> graph2 \<longrightarrow> free_swap st graph1 graph2 a b x = st x) \<and>
   Graph_swap st a b a = st b \<and> Graph_swap st a b b = st a"
proof (intro conjI impI allI)
  fix x assume "x \<noteq> graph1 \<and> x \<noteq> graph2"
  then show "free_swap st graph1 graph2 a b x = st x"
    by (simp add: free_swap_def Graph_swap_frame copy_ctor_frame)
next
  assume "graph1 \<notin> {a, b} \<and> graph2 \<notin> {a, b}"
  then have "a \<noteq> graph1" "a \<noteq> graph2" "b \<noteq> graph1" "b \<noteq> graph2" by auto
  then show "free_swap st graph1 graph2 a b a = st a" "free_swap st graph1 graph2 a b b = st b"
    by (simp_all add: free_swap_def Graph_swap_frame copy_ctor_frame)
next
  show "Graph_swap st a b a = st b"
    by (cases "a = b") (simp_all add: Graph_swap_this Graph_swap_other)
  show "Graph_swap st a b b = st a"
    by (simp add: Graph_swap_other)
qed

theorem free_swap_spec_witness:
  "free_swap ex_store 3 4 1 2 1 = ex_A \<and> free_swap ex_store 3 4 1 2 2 = ex_AB \<and>
   free_swap ex_store 3 4 1 2 5 = Graph_default \<and>
   Graph_swap ex_store 1 2 1 = ex_AB \<and> Graph_swap ex_store 1 2 2 = ex_A"
proof -
  have fresh: "(3::nat) \<notin> {1, 2} \<and> (4::nat) \<notin> {1, 2}" by simp
  have other: "(5::nat) \<noteq> 3 \<and> (5::nat) \<noteq> 4" by simp
  note spec = free_swap_spec [of 3 1 2 4 ex_store]
  from spec fresh
  have "free_swap ex_store 3 4 1 2 1 = ex_store 1 \<and> free_swap ex_store 3 4 1 2 2 = ex_store 2"
    by simp
  moreover from spec
  have "\<forall>x. x \<noteq> 3 \<and> x \<noteq> 4 \<longrightarrow> free_swap ex_store 3 4 1 2 x = ex_store x"
    by (elim conjE)
  from this [rule_format, OF other] have "free_swap ex_store 3 4 1 2 5 = ex_store 5" .
  moreover from spec
  have "Graph_swap ex_store 1 2 1 = ex_store 2 \<and> Graph_swap ex_store 1 2 2 = ex_store 1"
    by (elim conjE) (rule conjI)
  ultimately show ?thesis by (simp add: ex_store_def)
qed

text \<open>
  Claim C10. After the copy construction \<open>Graph g2 = g1\<close>, \<open>g2\<close> holds the nodes and edges
  of \<open>g1\<close>, and \<open>g1\<close> is as before. Whatever member function is then called on \<open>g2\<close>, \<open>g1\<close>
  is still as before; in particular after \<open>g2.insert_node(k, v)\<close>, which changes \<open>g2\<close> as
  it would change a graph equal to \<open>g1\<close>, \<open>g1.size()\<close> is what it was.
\<close>

theorem copy_spec:
  "g2 \<noteq> g1 \<longrightarrow>
     copy_ctor st g2 g1 g2 = st g1 \<and>
     copy_ctor st g2 g1 g1 = st g1 \<and>
     (\<forall>memfn :: ('k, 'v, 'w) Graph \<Rightarrow> 'r \<times> ('k, 'v, 'w) Graph.
        snd (call (copy_ctor st g2 g1) g2 memfn) g1 = st g1) \<and>
     snd (call (copy_ctor st g2 g1) g2 (\<lambda>g. insert_node g k v)) g2 =
       snd (insert_node (st g1) k v) \<and>
     Graph_size (snd (call (copy_ctor st g2 g1) g2 (\<lambda>g. insert_node g k v)) g1) =
       Graph_size (st g1)"
proof (intro impI conjI allI)
  assume ne: "g2 \<noteq> g1"
  then have ne': "g1 \<noteq> g2" by simp
  from ne show c: "copy_ctor st g2 g1 g2 = st g1" by (rule copy_ctor_this)
  from ne' show f: "copy_ctor st g2 g1 g1 = st g1" by (rule copy_ctor_frame)
  show "snd (call (copy_ctor st g2 g1) g2 (\<lambda>g. insert_node g k v)) g2 =
       snd (insert_node (st g1) k v)"
    by (simp add: call_def c split: prod.splits)
  from ne' show "Graph_size (snd (call (copy_ctor st g2 g1) g2 (\<lambda>g. insert_node g k v)) g1) =
       Graph_size (st g1)"
    by (simp add: call_def f split: prod.splits)
  fix memfn :: "('k, 'v, 'w) Graph \<Rightarrow> 'r \<times> ('k, 'v, 'w) Graph"
  from ne' show "snd (call (copy_ctor st g2 g1) g2 memfn) g1 = st g1"
    by (simp add: call_def f split: prod.splits)
qed

theorem copy_spec_witness:
  "copy_ctor ex_store 3 1 3 = ex_A \<and>
   Graph_size (snd (call (copy_ctor ex_store 3 1) 3 (\<lambda>g. insert_node g ''Z'' 5)) 3) = 2 \<and>
   Graph_size (snd (call (copy_ctor ex_store 3 1) 3 (\<lambda>g. insert_node g ''Z'' 5)) 1) = 1"
proof -
  have ne: "(3::nat) \<noteq> 1" by simp
  note spec = copy_spec [of 3 1 ex_store "''Z''" 5, rule_format, OF ne]
  from spec have a: "copy_ctor ex_store 3 1 3 = ex_store 1" by (elim conjE)
  from spec
  have b: "snd (call (copy_ctor ex_store 3 1) 3 (\<lambda>g. insert_node g ''Z'' 5)) 3 =
           snd (insert_node (ex_store 1) ''Z'' 5)"
    by (elim conjE)
  from spec
  have c: "Graph_size (snd (call (copy_ctor ex_store 3 1) 3 (\<lambda>g. insert_node g ''Z'' 5)) 1) =
           Graph_size (ex_store 1)"
    by (elim conjE)
  have d: "Graph_size (snd (insert_node ex_A ''Z'' 5)) = 2"
    by (simp add: ex_A_def insert_node_def umap_insert_def umap_find_def Graph_size_def
          umap_size_def)
  have e: "Graph_size ex_A = 1" by (simp add: ex_A_def Graph_size_def umap_size_def)
  from a b c d e show ?thesis by (simp add: ex_store_def)
qed

end
